theory Spec2Isabelle
  imports Complex_Main
begin


section \<open>The node store of rbtree.c\<close>

text \<open>
  Nodes live in a store indexed by addresses. A pointer of the C program is an address; the
  sentinel \<open>tree->nil\<close> is an ordinary address of the store, as in the source. A value pointer
  (\<open>void *data\<close>) is an \<open>'a option\<close>, \<open>None\<close> being \<open>NULL\<close>.
\<close>

type_synonym addr = nat

datatype rb_color_t = RB_RED | RB_BLACK

datatype rb_result_t = RB_OK | RB_ERROR | RB_NOT_FOUND | RB_DUPLICATE | RB_MEMORY_ERROR

record 'a rb_node_t =
  data :: "'a option"
  left :: addr
  right :: addr
  parent :: addr
  color :: rb_color_t

text \<open>
  The tree structure together with the memory it works on. \<open>tsize\<close> is the field \<open>size\<close>
  (a \<open>size_t\<close>; it never exceeds the number of allocated nodes, so it is a \<open>nat\<close> here).
  \<open>free_data\<close> tells whether a destructor is registered; \<open>destroyed\<close> logs the value
  pointers handed to it, in call order. \<open>malloc\<close> is a bump allocator over \<open>heap\<close>: \<open>brk\<close> is the
  next unused address and \<open>mem_free\<close> the number of nodes it can still hand out.
\<close>

record 'a rb_tree_t =
  root :: addr
  nil :: addr
  tsize :: nat
  compare :: "'a \<Rightarrow> 'a \<Rightarrow> int"
  free_data :: bool
  heap :: "addr \<Rightarrow> 'a rb_node_t"
  brk :: addr
  mem_free :: nat
  destroyed :: "'a option list"

subsection \<open>Field reads and writes\<close>

definition data_of :: "'a rb_tree_t \<Rightarrow> addr \<Rightarrow> 'a option" where
  "data_of T x = data (heap T x)"

definition left_of :: "'a rb_tree_t \<Rightarrow> addr \<Rightarrow> addr" where
  "left_of T x = left (heap T x)"

definition right_of :: "'a rb_tree_t \<Rightarrow> addr \<Rightarrow> addr" where
  "right_of T x = right (heap T x)"

definition parent_of :: "'a rb_tree_t \<Rightarrow> addr \<Rightarrow> addr" where
  "parent_of T x = parent (heap T x)"

definition color_of :: "'a rb_tree_t \<Rightarrow> addr \<Rightarrow> rb_color_t" where
  "color_of T x = color (heap T x)"

definition set_left :: "addr \<Rightarrow> addr \<Rightarrow> 'a rb_tree_t \<Rightarrow> 'a rb_tree_t" where
  "set_left x v T = T\<lparr>heap := (heap T)(x := (heap T x)\<lparr>left := v\<rparr>)\<rparr>"

definition set_right :: "addr \<Rightarrow> addr \<Rightarrow> 'a rb_tree_t \<Rightarrow> 'a rb_tree_t" where
  "set_right x v T = T\<lparr>heap := (heap T)(x := (heap T x)\<lparr>right := v\<rparr>)\<rparr>"

definition set_parent :: "addr \<Rightarrow> addr \<Rightarrow> 'a rb_tree_t \<Rightarrow> 'a rb_tree_t" where
  "set_parent x v T = T\<lparr>heap := (heap T)(x := (heap T x)\<lparr>parent := v\<rparr>)\<rparr>"

definition set_color :: "addr \<Rightarrow> rb_color_t \<Rightarrow> 'a rb_tree_t \<Rightarrow> 'a rb_tree_t" where
  "set_color x v T = T\<lparr>heap := (heap T)(x := (heap T x)\<lparr>color := v\<rparr>)\<rparr>"

definition set_root :: "addr \<Rightarrow> 'a rb_tree_t \<Rightarrow> 'a rb_tree_t" where
  "set_root v T = T\<lparr>root := v\<rparr>"

text \<open>\<open>tree->compare(data, x->data)\<close>; the comparison dereferences both pointers, so a
  \<open>NULL\<close> data field makes the call fail.\<close>

definition cmp_node :: "'a rb_tree_t \<Rightarrow> 'a \<Rightarrow> addr \<Rightarrow> int option" where
  "cmp_node T d x = map_option (compare T d) (data_of T x)"

subsection \<open>Creation and node allocation\<close>

definition rb_tree_create :: "('a \<Rightarrow> 'a \<Rightarrow> int) option \<Rightarrow> bool \<Rightarrow> nat \<Rightarrow> 'a rb_tree_t option" where
  "rb_tree_create compare_func free_func mem =
     (case compare_func of
        None \<Rightarrow> None
      | Some cf \<Rightarrow>
          if mem = 0 then None
          else Some \<lparr> root = 1, nil = 1, tsize = 0, compare = cf, free_data = free_func,
                 heap = (\<lambda>_. \<lparr> data = None, left = 1, right = 1, parent = 1, color = RB_BLACK \<rparr>),
                 brk = 2, mem_free = mem - 1, destroyed = [] \<rparr>)"

definition rb_node_create :: "'a rb_tree_t \<Rightarrow> 'a \<Rightarrow> (addr \<times> 'a rb_tree_t) option" where
  "rb_node_create T d =
     (if mem_free T = 0 then None
      else Some (brk T,
        T\<lparr> heap := (heap T)(brk T :=
               \<lparr> data = Some d, left = nil T, right = nil T, parent = nil T, color = RB_RED \<rparr>),
           brk := Suc (brk T), mem_free := mem_free T - 1 \<rparr>))"

text \<open>\<open>free(z)\<close> of a node: the cell goes back to the allocator's budget; the bump allocator
  never hands the address out again.\<close>

definition free_node :: "addr \<Rightarrow> 'a rb_tree_t \<Rightarrow> 'a rb_tree_t" where
  "free_node z T = T\<lparr>mem_free := Suc (mem_free T)\<rparr>"

definition rb_node_destroy :: "'a rb_tree_t \<Rightarrow> addr \<Rightarrow> 'a rb_tree_t" where
  "rb_node_destroy T node =
     (if node \<noteq> nil T then
        (let T = (if free_data T then T\<lparr>destroyed := destroyed T @ [data_of T node]\<rparr> else T)
         in free_node node T)
      else T)"

subsection \<open>Rotations\<close>

definition rb_left_rotate :: "'a rb_tree_t \<Rightarrow> addr \<Rightarrow> 'a rb_tree_t" where
  "rb_left_rotate T x =
     (let y = right_of T x;
          T = set_right x (left_of T y) T;
          T = (if left_of T y \<noteq> nil T then set_parent (left_of T y) x T else T);
          T = set_parent y (parent_of T x) T;
          T = (if parent_of T x = nil T then set_root y T
               else if x = left_of T (parent_of T x) then set_left (parent_of T x) y T
               else set_right (parent_of T x) y T);
          T = set_left y x T;
          T = set_parent x y T
      in T)"

definition rb_right_rotate :: "'a rb_tree_t \<Rightarrow> addr \<Rightarrow> 'a rb_tree_t" where
  "rb_right_rotate T y =
     (let x = left_of T y;
          T = set_left y (right_of T x) T;
          T = (if right_of T x \<noteq> nil T then set_parent (right_of T x) y T else T);
          T = set_parent x (parent_of T y) T;
          T = (if parent_of T y = nil T then set_root x T
               else if y = left_of T (parent_of T y) then set_left (parent_of T y) x T
               else set_right (parent_of T y) x T);
          T = set_right x y T;
          T = set_parent y x T
      in T)"

subsection \<open>Insertion\<close>

partial_function (option) rb_insert_fixup :: "'a rb_tree_t \<Rightarrow> addr \<Rightarrow> 'a rb_tree_t option" where
  "rb_insert_fixup T z =
     (if color_of T (parent_of T z) = RB_RED then
        (if parent_of T z = left_of T (parent_of T (parent_of T z)) then
           (let y = right_of T (parent_of T (parent_of T z)) in
            if color_of T y = RB_RED then
              (let T = set_color (parent_of T z) RB_BLACK T;
                   T = set_color y RB_BLACK T;
                   T = set_color (parent_of T (parent_of T z)) RB_RED T;
                   z = parent_of T (parent_of T z)
               in rb_insert_fixup T z)
            else
              (let (T, z) = (if z = right_of T (parent_of T z)
                             then (let z = parent_of T z in (rb_left_rotate T z, z))
                             else (T, z));
                   T = set_color (parent_of T z) RB_BLACK T;
                   T = set_color (parent_of T (parent_of T z)) RB_RED T;
                   T = rb_right_rotate T (parent_of T (parent_of T z))
               in rb_insert_fixup T z))
         else
           (let y = left_of T (parent_of T (parent_of T z)) in
            if color_of T y = RB_RED then
              (let T = set_color (parent_of T z) RB_BLACK T;
                   T = set_color y RB_BLACK T;
                   T = set_color (parent_of T (parent_of T z)) RB_RED T;
                   z = parent_of T (parent_of T z)
               in rb_insert_fixup T z)
            else
              (let (T, z) = (if z = left_of T (parent_of T z)
                             then (let z = parent_of T z in (rb_right_rotate T z, z))
                             else (T, z));
                   T = set_color (parent_of T z) RB_BLACK T;
                   T = set_color (parent_of T (parent_of T z)) RB_RED T;
                   T = rb_left_rotate T (parent_of T (parent_of T z))
               in rb_insert_fixup T z)))
      else Some (set_color (root T) RB_BLACK T))"

text \<open>The descent of \<open>rb_insert\<close>: \<open>Some None\<close> when a stored value compares equal
  (the early return \<open>RB_DUPLICATE\<close>), \<open>Some (Some y)\<close> with the last node visited otherwise.\<close>

partial_function (option) insert_descend ::
  "'a rb_tree_t \<Rightarrow> 'a \<Rightarrow> addr \<Rightarrow> addr \<Rightarrow> addr option option" where
  "insert_descend T d y x =
     (if x \<noteq> nil T then
        (case cmp_node T d x of
           None \<Rightarrow> None
         | Some c \<Rightarrow>
             if c < 0 then insert_descend T d x (left_of T x)
             else if c > 0 then insert_descend T d x (right_of T x)
             else Some None)
      else Some (Some y))"

definition rb_insert_node :: "'a rb_tree_t \<Rightarrow> 'a \<Rightarrow> (rb_result_t \<times> 'a rb_tree_t) option" where
  "rb_insert_node T0 d =
     (case rb_node_create T0 d of
        None \<Rightarrow> Some (RB_MEMORY_ERROR, T0)
      | Some (z, T) \<Rightarrow>
          (case insert_descend T d (nil T) (root T) of
             None \<Rightarrow> None
           | Some None \<Rightarrow> Some (RB_DUPLICATE, free_node z T)
           | Some (Some y) \<Rightarrow>
               (let T = set_parent z y T in
                case (if y = nil T then Some (set_root z T)
                      else (case cmp_node T d y of
                              None \<Rightarrow> None
                            | Some c \<Rightarrow> Some (if c < 0 then set_left y z T else set_right y z T)))
                of None \<Rightarrow> None
                 | Some T \<Rightarrow>
                     (case rb_insert_fixup T z of
                        None \<Rightarrow> None
                      | Some T \<Rightarrow> Some (RB_OK, T\<lparr>tsize := Suc (tsize T)\<rparr>)))))"

text \<open>The public entry: a \<open>NULL\<close> tree or a \<open>NULL\<close> value is refused.\<close>

definition rb_insert ::
  "'a rb_tree_t option \<Rightarrow> 'a option \<Rightarrow> (rb_result_t \<times> 'a rb_tree_t option) option" where
  "rb_insert tree d =
     (case (tree, d) of
        (Some T, Some v) \<Rightarrow> map_option (\<lambda>(r, T'). (r, Some T')) (rb_insert_node T v)
      | _ \<Rightarrow> Some (RB_ERROR, tree))"

subsection \<open>Deletion\<close>

definition rb_transplant :: "'a rb_tree_t \<Rightarrow> addr \<Rightarrow> addr \<Rightarrow> 'a rb_tree_t" where
  "rb_transplant T u v =
     (let T = (if parent_of T u = nil T then set_root v T
               else if u = left_of T (parent_of T u) then set_left (parent_of T u) v T
               else set_right (parent_of T u) v T)
      in set_parent v (parent_of T u) T)"

partial_function (option) rb_delete_fixup :: "'a rb_tree_t \<Rightarrow> addr \<Rightarrow> 'a rb_tree_t option" where
  "rb_delete_fixup T x =
     (if x \<noteq> root T \<and> color_of T x = RB_BLACK then
        (if x = left_of T (parent_of T x) then
           (let w = right_of T (parent_of T x);
                (T, w) = (if color_of T w = RB_RED then
                            (let T = set_color w RB_BLACK T;
                                 T = set_color (parent_of T x) RB_RED T;
                                 T = rb_left_rotate T (parent_of T x)
                             in (T, right_of T (parent_of T x)))
                          else (T, w))
            in
            if color_of T (left_of T w) = RB_BLACK \<and> color_of T (right_of T w) = RB_BLACK then
              (let T = set_color w RB_RED T;
                   x = parent_of T x
               in rb_delete_fixup T x)
            else
              (let (T, w) = (if color_of T (right_of T w) = RB_BLACK then
                               (let T = set_color (left_of T w) RB_BLACK T;
                                    T = set_color w RB_RED T;
                                    T = rb_right_rotate T w
                                in (T, right_of T (parent_of T x)))
                             else (T, w));
                   T = set_color w (color_of T (parent_of T x)) T;
                   T = set_color (parent_of T x) RB_BLACK T;
                   T = set_color (right_of T w) RB_BLACK T;
                   T = rb_left_rotate T (parent_of T x);
                   x = root T
               in rb_delete_fixup T x))
         else
           (let w = left_of T (parent_of T x);
                (T, w) = (if color_of T w = RB_RED then
                            (let T = set_color w RB_BLACK T;
                                 T = set_color (parent_of T x) RB_RED T;
                                 T = rb_right_rotate T (parent_of T x)
                             in (T, left_of T (parent_of T x)))
                          else (T, w))
            in
            if color_of T (right_of T w) = RB_BLACK \<and> color_of T (left_of T w) = RB_BLACK then
              (let T = set_color w RB_RED T;
                   x = parent_of T x
               in rb_delete_fixup T x)
            else
              (let (T, w) = (if color_of T (left_of T w) = RB_BLACK then
                               (let T = set_color (right_of T w) RB_BLACK T;
                                    T = set_color w RB_RED T;
                                    T = rb_left_rotate T w
                                in (T, left_of T (parent_of T x)))
                             else (T, w));
                   T = set_color w (color_of T (parent_of T x)) T;
                   T = set_color (parent_of T x) RB_BLACK T;
                   T = set_color (left_of T w) RB_BLACK T;
                   T = rb_right_rotate T (parent_of T x);
                   x = root T
               in rb_delete_fixup T x)))
      else Some (set_color x RB_BLACK T))"

partial_function (option) find_loop :: "'a rb_tree_t \<Rightarrow> 'a \<Rightarrow> addr \<Rightarrow> addr option" where
  "find_loop T d current =
     (if current \<noteq> nil T then
        (case cmp_node T d current of
           None \<Rightarrow> None
         | Some c \<Rightarrow>
             if c < 0 then find_loop T d (left_of T current)
             else if c > 0 then find_loop T d (right_of T current)
             else Some current)
      else Some (nil T))"

definition rb_find_node :: "'a rb_tree_t \<Rightarrow> 'a \<Rightarrow> addr option" where
  "rb_find_node T d = find_loop T d (root T)"

partial_function (option) rb_tree_minimum_node :: "'a rb_tree_t \<Rightarrow> addr \<Rightarrow> addr option" where
  "rb_tree_minimum_node T node =
     (if left_of T node \<noteq> nil T then rb_tree_minimum_node T (left_of T node) else Some node)"

partial_function (option) rb_tree_maximum_node :: "'a rb_tree_t \<Rightarrow> addr \<Rightarrow> addr option" where
  "rb_tree_maximum_node T node =
     (if right_of T node \<noteq> nil T then rb_tree_maximum_node T (right_of T node) else Some node)"

definition rb_delete_node :: "'a rb_tree_t \<Rightarrow> 'a \<Rightarrow> (rb_result_t \<times> 'a rb_tree_t) option" where
  "rb_delete_node T d =
     (case rb_find_node T d of
        None \<Rightarrow> None
      | Some z \<Rightarrow>
          if z = nil T then Some (RB_NOT_FOUND, T)
          else
            (case
               (if left_of T z = nil T then
                  (let x = right_of T z in
                   Some (color_of T z, x, rb_transplant T z (right_of T z)))
                else if right_of T z = nil T then
                  (let x = left_of T z in
                   Some (color_of T z, x, rb_transplant T z (left_of T z)))
                else
                  (case rb_tree_minimum_node T (right_of T z) of
                     None \<Rightarrow> None
                   | Some y \<Rightarrow>
                       (let y_original_color = color_of T y;
                            x = right_of T y;
                            T = (if parent_of T y = z then set_parent x y T
                                 else (let T = rb_transplant T y (right_of T y);
                                           T = set_right y (right_of T z) T
                                       in set_parent (right_of T y) y T));
                            T = rb_transplant T z y;
                            T = set_left y (left_of T z) T;
                            T = set_parent (left_of T y) y T;
                            T = set_color y (color_of T z) T
                        in Some (y_original_color, x, T))))
             of None \<Rightarrow> None
              | Some (y_original_color, x, T) \<Rightarrow>
                  (case (if y_original_color = RB_BLACK then rb_delete_fixup T x else Some T) of
                     None \<Rightarrow> None
                   | Some T \<Rightarrow>
                       (let T = rb_node_destroy T z
                        in Some (RB_OK, T\<lparr>tsize := tsize T - 1\<rparr>)))))"

definition rb_delete ::
  "'a rb_tree_t option \<Rightarrow> 'a option \<Rightarrow> (rb_result_t \<times> 'a rb_tree_t option) option" where
  "rb_delete tree d =
     (case (tree, d) of
        (Some T, Some v) \<Rightarrow> map_option (\<lambda>(r, T'). (r, Some T')) (rb_delete_node T v)
      | _ \<Rightarrow> Some (RB_ERROR, tree))"

subsection \<open>Queries\<close>

text \<open>A query returns \<open>None\<close> when it does not return, and otherwise the value the C
  function returns; a returned value pointer is an \<open>'a option\<close>, \<open>None\<close> being \<open>NULL\<close>.\<close>

definition rb_search :: "'a rb_tree_t option \<Rightarrow> 'a option \<Rightarrow> 'a option option" where
  "rb_search tree d =
     (case (tree, d) of
        (Some T, Some v) \<Rightarrow>
          (case rb_find_node T v of
             None \<Rightarrow> None
           | Some node \<Rightarrow> Some (if node \<noteq> nil T then data_of T node else None))
      | _ \<Rightarrow> Some None)"

definition rb_min :: "'a rb_tree_t option \<Rightarrow> 'a option option" where
  "rb_min tree =
     (case tree of
        None \<Rightarrow> Some None
      | Some T \<Rightarrow>
          if root T = nil T then Some None
          else map_option (data_of T) (rb_tree_minimum_node T (root T)))"

definition rb_max :: "'a rb_tree_t option \<Rightarrow> 'a option option" where
  "rb_max tree =
     (case tree of
        None \<Rightarrow> Some None
      | Some T \<Rightarrow>
          if root T = nil T then Some None
          else map_option (data_of T) (rb_tree_maximum_node T (root T)))"

partial_function (option) successor_ascend :: "'a rb_tree_t \<Rightarrow> addr \<Rightarrow> addr \<Rightarrow> addr option" where
  "successor_ascend T node y =
     (if y \<noteq> nil T \<and> node = right_of T y then successor_ascend T y (parent_of T y)
      else Some y)"

definition rb_tree_successor_node :: "'a rb_tree_t \<Rightarrow> addr \<Rightarrow> addr option" where
  "rb_tree_successor_node T node =
     (if right_of T node \<noteq> nil T then rb_tree_minimum_node T (right_of T node)
      else successor_ascend T node (parent_of T node))"

partial_function (option) predecessor_ascend :: "'a rb_tree_t \<Rightarrow> addr \<Rightarrow> addr \<Rightarrow> addr option" where
  "predecessor_ascend T node y =
     (if y \<noteq> nil T \<and> node = left_of T y then predecessor_ascend T y (parent_of T y)
      else Some y)"

definition rb_tree_predecessor_node :: "'a rb_tree_t \<Rightarrow> addr \<Rightarrow> addr option" where
  "rb_tree_predecessor_node T node =
     (if left_of T node \<noteq> nil T then rb_tree_maximum_node T (left_of T node)
      else predecessor_ascend T node (parent_of T node))"

definition rb_successor :: "'a rb_tree_t option \<Rightarrow> 'a option \<Rightarrow> 'a option option" where
  "rb_successor tree d =
     (case (tree, d) of
        (Some T, Some v) \<Rightarrow>
          (case rb_find_node T v of
             None \<Rightarrow> None
           | Some node \<Rightarrow>
               if node = nil T then Some None
               else
                 (case rb_tree_successor_node T node of
                    None \<Rightarrow> None
                  | Some succ \<Rightarrow> Some (if succ \<noteq> nil T then data_of T succ else None)))
      | _ \<Rightarrow> Some None)"

definition rb_predecessor :: "'a rb_tree_t option \<Rightarrow> 'a option \<Rightarrow> 'a option option" where
  "rb_predecessor tree d =
     (case (tree, d) of
        (Some T, Some v) \<Rightarrow>
          (case rb_find_node T v of
             None \<Rightarrow> None
           | Some node \<Rightarrow>
               if node = nil T then Some None
               else
                 (case rb_tree_predecessor_node T node of
                    None \<Rightarrow> None
                  | Some pred \<Rightarrow> Some (if pred \<noteq> nil T then data_of T pred else None)))
      | _ \<Rightarrow> Some None)"

text \<open>The walk returns the value pointers in the order in which \<open>visit\<close> is called on them.\<close>

partial_function (option) rb_inorder_walk_node ::
  "'a rb_tree_t \<Rightarrow> addr \<Rightarrow> 'a option list option" where
  "rb_inorder_walk_node T node =
     (if node \<noteq> nil T then
        Option.bind (rb_inorder_walk_node T (left_of T node)) (\<lambda>ls.
        Option.bind (rb_inorder_walk_node T (right_of T node)) (\<lambda>rs.
        Some (ls @ [data_of T node] @ rs)))
      else Some [])"

definition rb_inorder_walk :: "'a rb_tree_t option \<Rightarrow> bool \<Rightarrow> 'a option list option" where
  "rb_inorder_walk tree visit =
     (case tree of
        Some T \<Rightarrow> if visit then rb_inorder_walk_node T (root T) else Some []
      | None \<Rightarrow> Some [])"

definition rb_size :: "'a rb_tree_t option \<Rightarrow> nat" where
  "rb_size tree = (case tree of Some T \<Rightarrow> tsize T | None \<Rightarrow> 0)"

definition rb_is_empty :: "'a rb_tree_t option \<Rightarrow> bool" where
  "rb_is_empty tree = (case tree of Some T \<Rightarrow> tsize T = 0 | None \<Rightarrow> True)"

partial_function (option) rb_height_node :: "'a rb_tree_t \<Rightarrow> addr \<Rightarrow> int option" where
  "rb_height_node T node =
     (if node = nil T then Some 0
      else
        Option.bind (rb_height_node T (left_of T node)) (\<lambda>left_height.
        Option.bind (rb_height_node T (right_of T node)) (\<lambda>right_height.
        Some (1 + (if left_height > right_height then left_height else right_height)))))"

definition rb_height :: "'a rb_tree_t option \<Rightarrow> int option" where
  "rb_height tree = (case tree of None \<Rightarrow> Some (- 1) | Some T \<Rightarrow> rb_height_node T (root T))"

text \<open>\<open>rb_is_valid_node\<close> returns \<open>Some (Some bh)\<close> for \<open>true\<close> with \<open>*black_height = bh\<close>,
  and \<open>Some None\<close> for \<open>false\<close> (the output parameter is then left unset).\<close>

partial_function (option) rb_is_valid_node :: "'a rb_tree_t \<Rightarrow> addr \<Rightarrow> int option option" where
  "rb_is_valid_node T node =
     (if node = nil T then Some (Some 1)
      else if color_of T node = RB_RED \<and>
              (color_of T (left_of T node) \<noteq> RB_BLACK \<or> color_of T (right_of T node) \<noteq> RB_BLACK)
      then Some None
      else
        Option.bind (rb_is_valid_node T (left_of T node)) (\<lambda>lv.
          case lv of
            None \<Rightarrow> Some None
          | Some left_black_height \<Rightarrow>
              Option.bind (rb_is_valid_node T (right_of T node)) (\<lambda>rv.
                case rv of
                  None \<Rightarrow> Some None
                | Some right_black_height \<Rightarrow>
                    if left_black_height \<noteq> right_black_height then Some None
                    else Some (Some (left_black_height +
                                     (if color_of T node = RB_BLACK then 1 else 0))))))"

definition rb_is_valid :: "'a rb_tree_t option \<Rightarrow> bool option" where
  "rb_is_valid tree =
     (case tree of
        None \<Rightarrow> Some False
      | Some T \<Rightarrow>
          if root T \<noteq> nil T \<and> color_of T (root T) \<noteq> RB_BLACK then Some False
          else map_option (\<lambda>v. v \<noteq> None) (rb_is_valid_node T (root T)))"

subsection \<open>Range count (rbtree_utils.c)\<close>

text \<open>\<open>count_range_nodes\<close> adds to \<open>*count\<close>; the model threads the counter.\<close>

partial_function (option) count_range_nodes ::
  "'a rb_tree_t \<Rightarrow> addr \<Rightarrow> 'a \<Rightarrow> 'a \<Rightarrow> nat \<Rightarrow> nat option" where
  "count_range_nodes T node min_key max_key count =
     (if node = nil T then Some count
      else
        (case data_of T node of
           None \<Rightarrow> None
         | Some d \<Rightarrow>
             (let cmp_min = compare T d min_key;
                  cmp_max = compare T d max_key;
                  count = (if cmp_min \<ge> 0 \<and> cmp_max \<le> 0 then Suc count else count)
              in
              Option.bind (if cmp_min > 0
                           then count_range_nodes T (left_of T node) min_key max_key count
                           else Some count) (\<lambda>count.
              Option.bind (if cmp_max < 0
                           then count_range_nodes T (right_of T node) min_key max_key count
                           else Some count) (\<lambda>count.
              if cmp_min \<ge> 0 \<and> cmp_max \<le> 0 then
                Option.bind (count_range_nodes T (left_of T node) min_key max_key count) (\<lambda>count.
                  count_range_nodes T (right_of T node) min_key max_key count)
              else Some count)))))"

definition rb_count_range :: "'a rb_tree_t option \<Rightarrow> 'a option \<Rightarrow> 'a option \<Rightarrow> nat option" where
  "rb_count_range tree min_key max_key =
     (case (tree, min_key, max_key) of
        (Some T, Some lo, Some hi) \<Rightarrow> count_range_nodes T (root T) lo hi 0
      | _ \<Rightarrow> Some 0)"

subsection \<open>Running a sequence of operations\<close>

datatype 'a rb_op = Insert 'a | Delete 'a

fun apply_op :: "'a rb_tree_t \<Rightarrow> 'a rb_op \<Rightarrow> (rb_result_t \<times> 'a rb_tree_t option) option" where
  "apply_op T (Insert v) = rb_insert (Some T) (Some v)"
| "apply_op T (Delete v) = rb_delete (Some T) (Some v)"

text \<open>The tree after a sequence of operations; \<open>None\<close> when an operation does not return.\<close>

fun run_ops :: "'a rb_tree_t \<Rightarrow> 'a rb_op list \<Rightarrow> 'a rb_tree_t option" where
  "run_ops T [] = Some T"
| "run_ops T (op # ops) =
     (case apply_op T op of
        Some (r, Some T') \<Rightarrow> run_ops T' ops
      | _ \<Rightarrow> None)"

text \<open>A tree is reachable when a sequence of insertions and deletions leads to it from a
  freshly created tree.\<close>

definition reachable :: "'a rb_tree_t \<Rightarrow> bool" where
  "reachable T \<longleftrightarrow>
     (\<exists>cf fr mem T0 ops. rb_tree_create (Some cf) fr mem = Some T0 \<and> run_ops T0 ops = Some T)"

declare rb_insert_fixup.simps [code] insert_descend.simps [code] rb_delete_fixup.simps [code]
  find_loop.simps [code] rb_tree_minimum_node.simps [code] rb_tree_maximum_node.simps [code]
  successor_ascend.simps [code] predecessor_ascend.simps [code] rb_inorder_walk_node.simps [code]
  rb_height_node.simps [code] rb_is_valid_node.simps [code] count_range_nodes.simps [code]

subsection \<open>A comparison function of the demonstration programs\<close>

text \<open>\<open>(a > b) - (a < b)\<close> on integer keys, as \<open>employee_compare\<close> computes it on the ids.\<close>

definition int_compare :: "int \<Rightarrow> int \<Rightarrow> int" where
  "int_compare a b = (if a > b then 1 else 0) - (if a < b then 1 else 0)"

text \<open>The order a comparison function induces, and what makes it a total order on the
  classes of values that compare equal.\<close>

definition lt :: "('a \<Rightarrow> 'a \<Rightarrow> int) \<Rightarrow> 'a \<Rightarrow> 'a \<Rightarrow> bool" where
  "lt cf a b \<longleftrightarrow> cf a b < 0"

definition valid_compare :: "('a \<Rightarrow> 'a \<Rightarrow> int) \<Rightarrow> bool" where
  "valid_compare cf \<longleftrightarrow>
     (\<forall>a. cf a a = 0) \<and>
     (\<forall>a b. (cf a b < 0) = (cf b a > 0)) \<and>
     (\<forall>a b c. cf a b < 0 \<and> cf b c < 0 \<longrightarrow> cf a c < 0) \<and>
     (\<forall>a b c. cf a b = 0 \<and> cf b c = 0 \<longrightarrow> cf a c = 0)"

text \<open>A fresh tree with room for the values, and the values inserted in list order.\<close>

definition tree_of_inserts :: "('a \<Rightarrow> 'a \<Rightarrow> int) \<Rightarrow> 'a list \<Rightarrow> 'a rb_tree_t option" where
  "tree_of_inserts cf vs =
     Option.bind (rb_tree_create (Some cf) False (Suc (length vs))) (\<lambda>T. run_ops T (map Insert vs))"

text \<open>A store whose two nodes are in the wrong order: the root holds 5 and its left child 9.\<close>

definition unordered_tree :: "int rb_tree_t" where
  "unordered_tree =
     \<lparr> root = 2, nil = 1, tsize = 2, compare = int_compare, free_data = False,
       heap = (\<lambda>_. \<lparr> data = None, left = 1, right = 1, parent = 1, color = RB_BLACK \<rparr>)
         (2 := \<lparr> data = Some 5, left = 3, right = 1, parent = 1, color = RB_BLACK \<rparr>,
          3 := \<lparr> data = Some 9, left = 1, right = 1, parent = 2, color = RB_RED \<rparr>),
       brk = 4, mem_free = 0, destroyed = [] \<rparr>"

section \<open>Null trees and the validity check\<close>

text \<open>
  Claim C9. On a null tree reference the read-only operations return at once: \<open>rb_size\<close>
  gives 0, \<open>rb_is_empty\<close> true, \<open>rb_search\<close>, \<open>rb_min\<close> and \<open>rb_max\<close> the null pointer,
  \<open>rb_is_valid\<close> false and \<open>rb_height\<close> -1, which differs from the 0 of a tree that was
  just created.
\<close>

theorem null_tree_queries:
  "rb_size None = 0 \<and> rb_is_empty None \<and> rb_search None d = Some None \<and>
   rb_min None = Some None \<and> rb_max None = Some None \<and>
   rb_is_valid None = Some False \<and> rb_height None = Some (- 1) \<and>
   rb_height (rb_tree_create (Some cf) fr (Suc m)) = Some 0"
  by (simp add: rb_size_def rb_is_empty_def rb_search_def rb_min_def rb_max_def rb_is_valid_def
      rb_height_def rb_tree_create_def rb_height_node.simps)

text \<open>
  Claim C10. \<open>rb_is_valid\<close> looks at colours and black-heights only: on \<open>unordered_tree\<close>,
  whose in-order walk yields 9 before 5, a sequence that is not increasing under the tree's
  comparison function, it returns true.
\<close>

theorem is_valid_ignores_order:
  "rb_inorder_walk (Some unordered_tree) True = Some [Some 9, Some 5] \<and>
   \<not> lt (compare unordered_tree) 9 5 \<and>
   rb_is_valid (Some unordered_tree) = Some True"
  by (simp add: unordered_tree_def rb_inorder_walk_def rb_inorder_walk_node.simps rb_is_valid_def
      rb_is_valid_node.simps left_of_def right_of_def color_of_def data_of_def lt_def
      int_compare_def)

section \<open>The range count\<close>

text \<open>
  Claim C3. \<open>rb_count_range\<close> should return the number of stored values between the two
  bounds. On the tree built by inserting 2, 1 and 3, whose three values all lie between 1
  and 3, it returns 5: a node strictly inside the range has both subtrees counted twice.
\<close>

theorem count_range_counts_twice:
  "Option.bind (tree_of_inserts int_compare [2, 1, 3])
     (\<lambda>T. Some (rb_inorder_walk (Some T) True, rb_count_range (Some T) (Some 1) (Some 3)))
   = Some (Some [Some 1, Some 2, Some 3], Some 5)"
  by code_simp

end
